theory Spec2Isabelle
  imports Complex_Main
begin

section \<open>Python values used by the rate limiter\<close>

text \<open>
  Exceptions of the source are values.  Python's \<open>time.time()\<close> and the role
  multipliers are floats; they are modelled as exact rationals (every multiplier of the
  source, 3.0, 2.0, 1.0 and 0.5, is exact in binary floating point).
\<close>

datatype py_error = KeyError | TypeError | ZeroDivisionError | ConnectionError | ResponseError

text \<open>\<open>int(x)\<close> on a float truncates toward zero.\<close>

definition py_int :: "rat \<Rightarrow> int" where
  "py_int x = (if 0 \<le> x then \<lfloor>x\<rfloor> else \<lceil>x\<rceil>)"

text \<open>\<open>a / b\<close> on numbers raises on a zero divisor.\<close>

definition py_truediv :: "rat \<Rightarrow> int \<Rightarrow> py_error + rat" where
  "py_truediv a b = (if b = 0 then Inl ZeroDivisionError else Inr (a / of_int b))"

text \<open>\<open>str(n)\<close> for an integer: its decimal digits, with a minus sign when negative.\<close>

fun str_nat :: "nat \<Rightarrow> string" where
  "str_nat n = (if n < 10 then [''0123456789'' ! n]
                else str_nat (n div 10) @ [''0123456789'' ! (n mod 10)])"

declare str_nat.simps [simp del]

definition str_int :: "int \<Rightarrow> string" where
  "str_int i = (if i < 0 then CHR ''-'' # str_nat (nat (- i)) else str_nat (nat i))"

text \<open>
  \<open>s.split(sep)[0]\<close>, \<open>s.split(sep)[-1]\<close> and \<open>s.strip()\<close>.  A character is a code
  point below 256; the ones \<open>strip\<close> removes are those for which \<open>str.isspace\<close> holds.
\<close>

definition split_first :: "char \<Rightarrow> string \<Rightarrow> string" where
  "split_first sep s = takeWhile (\<lambda>c. c \<noteq> sep) s"

definition split_last :: "char \<Rightarrow> string \<Rightarrow> string" where
  "split_last sep s = rev (takeWhile (\<lambda>c. c \<noteq> sep) (rev s))"

definition is_space :: "char \<Rightarrow> bool" where
  "is_space c = (c \<in> set [CHR '' '', CHR 0x09, CHR 0x0A, CHR 0x0B, CHR 0x0C, CHR 0x0D,
                            CHR 0x1C, CHR 0x1D, CHR 0x1E, CHR 0x1F, CHR 0x85, CHR 0xA0])"

definition strip :: "string \<Rightarrow> string" where
  "strip s = rev (dropWhile is_space (rev (dropWhile is_space s)))"

section \<open>The Redis server behind the cache service\<close>

text \<open>
  A key holds either an integer (what \<open>INCRBY\<close> creates and updates) or a serialized
  value written by \<open>SETEX\<close>; the only serialized values the rate limiter writes are block
  records.  A key with an expiry time is live up to and including that time and
  expired after it; Redis treats an expired key as absent.  An integer is a signed
  64-bit number: \<open>INCRBY\<close> refuses an amount outside that range and an increment that
  would leave it.  When \<open>reachable\<close> is false every command raises.
\<close>

record block_info =
  blocked_at :: rat
  reason :: string
  duration :: int

datatype redis_value = Counter int | Serialized block_info

record entry =
  val :: redis_value
  expire_at :: "rat option"

record redis =
  reachable :: bool
  db :: "string \<rightharpoonup> entry"

definition live :: "rat \<Rightarrow> entry \<Rightarrow> bool" where
  "live now e = (case expire_at e of None \<Rightarrow> True | Some t \<Rightarrow> now \<le> t)"

definition lookup :: "rat \<Rightarrow> (string \<rightharpoonup> entry) \<Rightarrow> string \<Rightarrow> entry option" where
  "lookup now d k = (case d k of None \<Rightarrow> None | Some e \<Rightarrow> if live now e then Some e else None)"

definition int64 :: "int \<Rightarrow> bool" where
  "int64 x = (- 9223372036854775808 \<le> x \<and> x \<le> 9223372036854775807)"

datatype command = INCRBY string int | EXPIRE string int

text \<open>
  One command on the database.  \<open>INCRBY\<close> first reads its amount, an error when it is
  not a signed 64-bit number; on an absent key it starts from 0 and sets no expiry; on
  an integer it keeps the expiry, and is an error when the sum overflows; on any other
  value it is an error.  An error leaves the database as it was.  \<open>EXPIRE\<close> with a
  non-positive time deletes the key.
\<close>

fun run_command :: "rat \<Rightarrow> (string \<rightharpoonup> entry) \<Rightarrow> command \<Rightarrow> (py_error + int) \<times> (string \<rightharpoonup> entry)" where
  "run_command now d (INCRBY k amount) =
     (if \<not> int64 amount then (Inl ResponseError, d)
      else (case lookup now d k of
              None \<Rightarrow> (Inr amount, d(k \<mapsto> \<lparr>val = Counter amount, expire_at = None\<rparr>))
            | Some e \<Rightarrow>
                (case val e of
                   Counter c \<Rightarrow>
                     if int64 (c + amount)
                     then (Inr (c + amount), d(k \<mapsto> e\<lparr>val := Counter (c + amount)\<rparr>))
                     else (Inl ResponseError, d)
                 | Serialized _ \<Rightarrow> (Inl ResponseError, d))))"
| "run_command now d (EXPIRE k ttl) =
     (case lookup now d k of
        None \<Rightarrow> (Inr 0, d)
      | Some e \<Rightarrow>
          if ttl \<le> 0 then (Inr 1, d(k := None))
          else (Inr 1, d(k \<mapsto> e\<lparr>expire_at := Some (now + of_int ttl)\<rparr>)))"

fun run_commands :: "rat \<Rightarrow> (string \<rightharpoonup> entry) \<Rightarrow> command list \<Rightarrow> (py_error + int) list \<times> (string \<rightharpoonup> entry)" where
  "run_commands now d [] = ([], d)"
| "run_commands now d (c # cs) =
     (let (r, d') = run_command now d c;
          (rs, d'') = run_commands now d' cs
      in (r # rs, d''))"

text \<open>The first error among the replies of a transaction, if any.\<close>

fun first_error :: "(py_error + int) list \<Rightarrow> py_error option" where
  "first_error [] = None"
| "first_error (Inl e # rs) = Some e"
| "first_error (Inr _ # rs) = first_error rs"

fun replies :: "(py_error + int) list \<Rightarrow> int list" where
  "replies [] = []"
| "replies (Inl _ # rs) = replies rs"
| "replies (Inr v # rs) = v # replies rs"

text \<open>
  \<open>pipe.execute()\<close>: the queued commands run in order inside one transaction; a
  command that fails does not undo the others, and the first failure is raised.
\<close>

definition pipe_execute :: "rat \<Rightarrow> redis \<Rightarrow> command list \<Rightarrow> (py_error + int list) \<times> redis" where
  "pipe_execute now r cmds =
     (if \<not> reachable r then (Inl ConnectionError, r)
      else let (rs, d') = run_commands now (db r) cmds
           in (case first_error rs of
                 Some e \<Rightarrow> (Inl e, r\<lparr>db := d'\<rparr>)
               | None \<Rightarrow> (Inr (replies rs), r\<lparr>db := d'\<rparr>)))"

definition redis_exists :: "rat \<Rightarrow> redis \<Rightarrow> string \<Rightarrow> py_error + bool" where
  "redis_exists now r k =
     (if \<not> reachable r then Inl ConnectionError else Inr (lookup now (db r) k \<noteq> None))"

definition redis_setex :: "rat \<Rightarrow> redis \<Rightarrow> string \<Rightarrow> int \<Rightarrow> redis_value \<Rightarrow> (py_error + unit) \<times> redis" where
  "redis_setex now r k ttl v =
     (if \<not> reachable r then (Inl ConnectionError, r)
      else if ttl \<le> 0 then (Inl ResponseError, r)
      else (Inr (), r\<lparr>db := (db r)(k \<mapsto> \<lparr>val = v, expire_at = Some (now + of_int ttl)\<rparr>)\<rparr>))"

section \<open>CacheService\<close>

record cache_service =
  redis_client :: "redis option"
  default_ttl :: int
  key_prefix :: string

definition is_available :: "cache_service \<Rightarrow> bool" where
  "is_available cs = (redis_client cs \<noteq> None)"

definition make_key :: "cache_service \<Rightarrow> string \<Rightarrow> string" where
  "make_key cs key = key_prefix cs @ key"

text \<open>
  \<open>CacheService.set\<close> for a dict value: \<open>ttl or default_ttl\<close>, then \<open>SETEX\<close>; any
  exception is caught and gives \<open>False\<close>.
\<close>

definition cache_set :: "cache_service \<Rightarrow> rat \<Rightarrow> string \<Rightarrow> block_info \<Rightarrow> int option \<Rightarrow> bool \<times> cache_service" where
  "cache_set cs now key v ttl =
     (case redis_client cs of
        None \<Rightarrow> (False, cs)
      | Some r \<Rightarrow>
          let cache_key = make_key cs key;
              ttl' = (case ttl of None \<Rightarrow> default_ttl cs
                      | Some t \<Rightarrow> if t = 0 then default_ttl cs else t)
          in (case redis_setex now r cache_key ttl' (Serialized v) of
                (Inl _, r') \<Rightarrow> (False, cs\<lparr>redis_client := Some r'\<rparr>)
              | (Inr _, r') \<Rightarrow> (True, cs\<lparr>redis_client := Some r'\<rparr>)))"

definition cache_exists :: "cache_service \<Rightarrow> rat \<Rightarrow> string \<Rightarrow> bool" where
  "cache_exists cs now key =
     (case redis_client cs of
        None \<Rightarrow> False
      | Some r \<Rightarrow> (case redis_exists now r (make_key cs key) of Inl _ \<Rightarrow> False | Inr b \<Rightarrow> b))"

text \<open>
  \<open>CacheService.increment\<close>: \<open>INCRBY\<close> is queued; \<open>EXPIRE\<close> is queued only when \<open>ttl\<close>
  is truthy and the key does not exist at that moment (the existence check runs on the
  client, before the transaction); the transaction runs and its first reply is
  returned.  Any exception is caught and gives \<open>None\<close>.
\<close>

definition increment :: "cache_service \<Rightarrow> rat \<Rightarrow> string \<Rightarrow> int \<Rightarrow> int option \<Rightarrow> int option \<times> cache_service" where
  "increment cs now key amount ttl =
     (case redis_client cs of
        None \<Rightarrow> (None, cs)
      | Some r \<Rightarrow>
          let cache_key = make_key cs key;
              pipe = [INCRBY cache_key amount];
              queued = (case ttl of
                          None \<Rightarrow> Inr pipe
                        | Some t \<Rightarrow>
                            if t = 0 then Inr pipe
                            else (case redis_exists now r cache_key of
                                    Inl e \<Rightarrow> Inl e
                                  | Inr ex \<Rightarrow> if \<not> ex then Inr (pipe @ [EXPIRE cache_key t]) else Inr pipe))
          in (case queued of
                Inl _ \<Rightarrow> (None, cs)
              | Inr cmds \<Rightarrow>
                  (case pipe_execute now r cmds of
                     (Inl _, r') \<Rightarrow> (None, cs\<lparr>redis_client := Some r'\<rparr>)
                   | (Inr result, r') \<Rightarrow>
                       (case result of
                          [] \<Rightarrow> (None, cs\<lparr>redis_client := Some r'\<rparr>)
                        | x # _ \<Rightarrow> (Some x, cs\<lparr>redis_client := Some r'\<rparr>)))))"

text \<open>The live entry under a key of the cache, as the server sees it at \<open>now\<close>.\<close>

definition stored :: "cache_service \<Rightarrow> rat \<Rightarrow> string \<Rightarrow> entry option" where
  "stored cs now key =
     (case redis_client cs of None \<Rightarrow> None | Some r \<Rightarrow> lookup now (db r) (make_key cs key))"

section \<open>The request context\<close>

text \<open>
  What the rate limiter reads from Flask and from the JWT extension: the three places
  an address can come from, and the decoded token.  \<open>jwt = None\<close> is a request with no
  verified token in its context, where \<open>get_jwt()\<close> and \<open>get_jwt_identity()\<close> raise.
\<close>

record jwt_claims =
  jwt_identity :: "int option"
  claim_type :: "string option"
  claim_role :: "string option"

record request =
  x_forwarded_for :: "string option"
  x_real_ip :: "string option"
  remote_addr :: "string option"
  jwt :: "jwt_claims option"

text \<open>Truthiness of an optional string: present and not empty.\<close>

definition truthy :: "string option \<Rightarrow> bool" where
  "truthy s = (case s of None \<Rightarrow> False | Some v \<Rightarrow> v \<noteq> [])"

section \<open>RateLimiter\<close>

record limit_config =
  requests :: int
  window :: int

record limit_info =
  limit :: int
  remaining :: int
  reset_time :: int
  retry_after :: int
  info_window :: int
  info_identifier :: string

definition default_limits :: "string \<rightharpoonup> limit_config" where
  "default_limits = map_of
     [(''auth'', \<lparr>requests = 5, window = 300\<rparr>),
      (''api'', \<lparr>requests = 100, window = 60\<rparr>),
      (''upload'', \<lparr>requests = 10, window = 300\<rparr>),
      (''emergency'', \<lparr>requests = 3, window = 60\<rparr>),
      (''admin'', \<lparr>requests = 200, window = 60\<rparr>)]"

definition user_role_multipliers :: "string \<rightharpoonup> rat" where
  "user_role_multipliers = map_of
     [(''admin'', 3), (''hospital_admin'', 2), (''doctor'', 2), (''user'', 1), (''guest'', 1 / 2)]"

definition get_client_ip :: "request \<Rightarrow> string" where
  "get_client_ip req =
     (if truthy (x_forwarded_for req) then strip (split_first CHR '','' (the (x_forwarded_for req)))
      else if truthy (x_real_ip req) then the (x_real_ip req)
      else if truthy (remote_addr req) then the (remote_addr req)
      else ''unknown'')"

definition get_client_identifier :: "request \<Rightarrow> string" where
  "get_client_identifier req =
     (case jwt req of
        None \<Rightarrow> ''ip:'' @ get_client_ip req
      | Some claims \<Rightarrow>
          (case jwt_identity claims of
             None \<Rightarrow> ''ip:'' @ get_client_ip req
           | Some user_id \<Rightarrow>
               if user_id \<noteq> 0 then
                 (let user_type = (case claim_type claims of None \<Rightarrow> ''user'' | Some t \<Rightarrow> t)
                  in ''user:'' @ user_type @ '':'' @ str_int user_id)
               else ''ip:'' @ get_client_ip req))"

definition get_rate_limit_key :: "rat \<Rightarrow> string \<Rightarrow> string \<Rightarrow> py_error + string" where
  "get_rate_limit_key now identifier limit_type =
     (case default_limits limit_type of
        None \<Rightarrow> Inl KeyError
      | Some d \<Rightarrow>
          (case py_truediv now (window d) of
             Inl e \<Rightarrow> Inl e
           | Inr q \<Rightarrow>
               Inr (''rate_limit:'' @ limit_type @ '':'' @ identifier @ '':'' @ str_int (py_int q))))"

definition get_user_role_multiplier :: "request \<Rightarrow> rat" where
  "get_user_role_multiplier req =
     (case jwt req of
        None \<Rightarrow> 1 / 2
      | Some claims \<Rightarrow>
          (let user_role = (case claim_role claims of None \<Rightarrow> ''user'' | Some r \<Rightarrow> r)
           in (case user_role_multipliers user_role of None \<Rightarrow> 1 | Some m \<Rightarrow> m)))"

text \<open>\<open>int(limit_config['requests'] * multiplier)\<close>.\<close>

definition adjusted_limit :: "limit_config \<Rightarrow> rat \<Rightarrow> int" where
  "adjusted_limit limit_config multiplier = py_int (of_int (requests limit_config) * multiplier)"

text \<open>
  The body of the \<open>try\<close> block of \<open>check_rate_limit\<close>, statement by statement.  An
  exception leaves the store as it was when raised.  The clock is read once per call.
\<close>

definition check_rate_limit_try ::
  "request \<Rightarrow> string \<Rightarrow> limit_config option \<Rightarrow> rat \<Rightarrow> cache_service
     \<Rightarrow> (py_error + bool \<times> limit_info) \<times> cache_service" where
  "check_rate_limit_try req limit_type custom_limit now cs =
     (let identifier = get_client_identifier req
      in (case default_limits ''api'' of
            None \<Rightarrow> (Inl KeyError, cs)
          | Some api \<Rightarrow>
      let limit_config = (case custom_limit of
                            Some c \<Rightarrow> c
                          | None \<Rightarrow> (case default_limits limit_type of Some c \<Rightarrow> c | None \<Rightarrow> api));
          multiplier = get_user_role_multiplier req;
          adjusted = adjusted_limit limit_config multiplier;
          w = window limit_config
      in (case get_rate_limit_key now identifier limit_type of
            Inl e \<Rightarrow> (Inl e, cs)
          | Inr key \<Rightarrow>
              (case increment cs now key 1 (Some w) of
                 (None, cs') \<Rightarrow> (Inl TypeError, cs')
               | (Some current_count, cs') \<Rightarrow>
                   let is_allowed = (current_count \<le> adjusted)
                   in (case py_truediv now w of
                         Inl e \<Rightarrow> (Inl e, cs')
                       | Inr q \<Rightarrow>
                           let window_start = py_int q * w;
                               reset = window_start + w
                           in (Inr (is_allowed,
                                 \<lparr>limit = adjusted,
                                  remaining = max 0 (adjusted - current_count),
                                  reset_time = reset,
                                  retry_after = (if \<not> is_allowed then reset - py_int now else 0),
                                  info_window = w,
                                  info_identifier = split_first CHR '':'' identifier\<rparr>), cs'))))))"

text \<open>
  \<open>check_rate_limit\<close>: the pair \<open>(is_allowed, limit_info)\<close>; the empty dict \<open>{}\<close> is
  \<open>None\<close>.  Every exception of the body is caught and answered \<open>(True, {})\<close>.
\<close>

definition check_rate_limit ::
  "request \<Rightarrow> string \<Rightarrow> limit_config option \<Rightarrow> rat \<Rightarrow> cache_service
     \<Rightarrow> (bool \<times> limit_info option) \<times> cache_service" where
  "check_rate_limit req limit_type custom_limit now cs =
     (if \<not> is_available cs then ((True, None), cs)
      else (case check_rate_limit_try req limit_type custom_limit now cs of
              (Inl _, cs') \<Rightarrow> ((True, None), cs')
            | (Inr (is_allowed, info), cs') \<Rightarrow> ((is_allowed, Some info), cs')))"

definition is_ip_blocked :: "string option \<Rightarrow> request \<Rightarrow> rat \<Rightarrow> cache_service \<Rightarrow> bool" where
  "is_ip_blocked ip_address req now cs =
     (if \<not> is_available cs then False
      else let ip = (if truthy ip_address then the ip_address else get_client_ip req)
           in cache_exists cs now (''blocked_ip:'' @ ip))"

definition block_ip :: "string \<Rightarrow> int \<Rightarrow> string \<Rightarrow> rat \<Rightarrow> cache_service \<Rightarrow> bool \<times> cache_service" where
  "block_ip ip_address dur why now cs =
     (if \<not> is_available cs then (False, cs)
      else let key = ''blocked_ip:'' @ ip_address;
               info = \<lparr>blocked_at = now, reason = why, duration = dur\<rparr>;
               (_, cs') = cache_set cs now key info (Some dur)
           in (True, cs'))"

text \<open>
  \<open>check_brute_force_protection\<close>.  \<open>increment(...) or 0\<close> turns both \<open>None\<close> and \<open>0\<close>
  into \<open>0\<close>.  The identifier handed to \<open>block_ip\<close> is the text after the last colon when
  the identifier has a colon.  Nothing in the \<open>try\<close> block can raise here: \<open>increment\<close>
  and \<open>set\<close> catch their own exceptions.
\<close>

definition check_brute_force_protection ::
  "string \<Rightarrow> int \<Rightarrow> int \<Rightarrow> rat \<Rightarrow> cache_service \<Rightarrow> (bool \<times> int) \<times> cache_service" where
  "check_brute_force_protection identifier max_attempts w now cs =
     (if \<not> is_available cs then ((False, 0), cs)
      else let key = ''brute_force:'' @ identifier;
               (counted, cs') = increment cs now key 1 (Some w);
               attempts = (case counted of None \<Rightarrow> 0 | Some n \<Rightarrow> n)
           in if attempts > max_attempts then
                let target = (if CHR '':'' \<in> set identifier then split_last CHR '':'' identifier
                              else identifier);
                    (_, cs'') = block_ip target w ''Brute force protection'' now cs'
                in ((True, attempts), cs'')
              else ((False, attempts), cs'))"

definition track_failed_login ::
  "string \<Rightarrow> string option \<Rightarrow> request \<Rightarrow> rat \<Rightarrow> cache_service \<Rightarrow> bool \<times> cache_service" where
  "track_failed_login username ip_address req now cs =
     (if \<not> is_available cs then (False, cs)
      else let ip = (if truthy ip_address then the ip_address else get_client_ip req);
               ((is_ip_blocked', ip_attempts), cs1) =
                  check_brute_force_protection ip 10 900 now cs;
               ((is_user_blocked, user_attempts), cs2) =
                  check_brute_force_protection (''user:'' @ username) 5 1800 now cs1;
               ((is_combo_blocked, combo_attempts), cs3) =
                  check_brute_force_protection (''combo:'' @ ip @ '':'' @ username) 3 600 now cs2
           in (is_ip_blocked' \<or> is_user_blocked \<or> is_combo_blocked, cs3))"

section \<open>The rate_limit decorator\<close>

text \<open>
  The wrapper either answers 429 itself (blocked address, or quota exceeded with the
  four headers) or stores the limit info and calls the endpoint.
\<close>

record rate_limit_headers =
  x_ratelimit_limit :: int
  x_ratelimit_remaining :: int
  x_ratelimit_reset :: int
  retry_after_header :: int

datatype outcome =
    Blocked
  | RateLimited rate_limit_headers
  | Allowed "limit_info option"

definition rate_limit ::
  "string \<Rightarrow> limit_config option \<Rightarrow> request \<Rightarrow> rat \<Rightarrow> cache_service \<Rightarrow> outcome \<times> cache_service" where
  "rate_limit limit_type custom_limit req now cs =
     (if is_ip_blocked None req now cs then (Blocked, cs)
      else let ((is_allowed, info), cs') = check_rate_limit req limit_type custom_limit now cs
           in if \<not> is_allowed then
                (RateLimited
                   \<lparr>x_ratelimit_limit = (case info of None \<Rightarrow> 0 | Some i \<Rightarrow> limit i),
                    x_ratelimit_remaining = (case info of None \<Rightarrow> 0 | Some i \<Rightarrow> remaining i),
                    x_ratelimit_reset = (case info of None \<Rightarrow> 0 | Some i \<Rightarrow> reset_time i),
                    retry_after_header = (case info of None \<Rightarrow> 60 | Some i \<Rightarrow> retry_after i)\<rparr>, cs')
              else (Allowed info, cs'))"

section \<open>Running the service\<close>

text \<open>
  A cache service as \<open>init_app\<close> leaves it when Redis answers the ping, with the given
  keys already in the database.
\<close>

definition fresh_service :: "(string \<times> entry) list \<Rightarrow> cache_service" where
  "fresh_service kvs =
     \<lparr>redis_client = Some \<lparr>reachable = True, db = map_of kvs\<rparr>,
      default_ttl = 3600, key_prefix = ''hospital_mgmt:''\<rparr>"

text \<open>
  Three kinds of request from a socket address, with no proxy headers: one with no
  verified token in its context, one whose token was verified as optional and is absent
  (an empty claims dict), and one with the token \<open>routes/auth.py\<close> issues to a user.
\<close>

definition guest_request :: "string \<Rightarrow> request" where
  "guest_request addr =
     \<lparr>x_forwarded_for = None, x_real_ip = None, remote_addr = Some addr, jwt = None\<rparr>"

definition anonymous_request :: "string \<Rightarrow> request" where
  "anonymous_request addr =
     \<lparr>x_forwarded_for = None, x_real_ip = None, remote_addr = Some addr,
      jwt = Some \<lparr>jwt_identity = None, claim_type = None, claim_role = None\<rparr>\<rparr>"

definition user_request :: "string \<Rightarrow> int \<Rightarrow> string \<Rightarrow> request" where
  "user_request addr uid role =
     \<lparr>x_forwarded_for = None, x_real_ip = None, remote_addr = Some addr,
      jwt = Some \<lparr>jwt_identity = Some uid, claim_type = Some ''user'', claim_role = Some role\<rparr>\<rparr>"


text \<open>The same request checked at each of a list of times, one call after the other.\<close>

fun check_rate_limit_at ::
  "request \<Rightarrow> string \<Rightarrow> limit_config option \<Rightarrow> rat list \<Rightarrow> cache_service
     \<Rightarrow> (bool \<times> limit_info option) list \<times> cache_service" where
  "check_rate_limit_at req limit_type custom_limit [] cs = ([], cs)"
| "check_rate_limit_at req limit_type custom_limit (t # ts) cs =
     (let (res, cs') = check_rate_limit req limit_type custom_limit t cs;
          (rest, cs'') = check_rate_limit_at req limit_type custom_limit ts cs'
      in (res # rest, cs''))"

text \<open>The same failed login recorded at each of a list of times.\<close>

fun track_failed_login_at ::
  "string \<Rightarrow> string option \<Rightarrow> request \<Rightarrow> rat list \<Rightarrow> cache_service \<Rightarrow> bool list \<times> cache_service" where
  "track_failed_login_at username ip_address req [] cs = ([], cs)"
| "track_failed_login_at username ip_address req (t # ts) cs =
     (let (res, cs') = track_failed_login username ip_address req t cs;
          (rest, cs'') = track_failed_login_at username ip_address req ts cs'
      in (res # rest, cs''))"

section \<open>The counter store's increment\<close>

lemma increment_existing:
  assumes "redis_client cs = Some r" "reachable r"
    and "lookup now (db r) (make_key cs key) = Some e" "val e = Counter c"
    and "int64 amount" "int64 (c + amount)"
  shows "increment cs now key amount ttl =
          (Some (c + amount),
           cs\<lparr>redis_client := Some (r\<lparr>db := (db r)(make_key cs key \<mapsto> e\<lparr>val := Counter (c + amount)\<rparr>)\<rparr>)\<rparr>)"
  using assms
  by (cases ttl) (simp_all add: increment_def redis_exists_def pipe_execute_def Let_def)

lemma increment_new:
  assumes "redis_client cs = Some r" "reachable r"
    and "lookup now (db r) (make_key cs key) = None" "0 < t"
    and "int64 amount"
  shows "increment cs now key amount (Some t) =
          (Some amount,
           cs\<lparr>redis_client := Some (r\<lparr>db := (db r)(make_key cs key \<mapsto>
                 \<lparr>val = Counter amount, expire_at = Some (now + of_int t)\<rparr>)\<rparr>)\<rparr>)"
  using assms
  by (simp add: increment_def redis_exists_def pipe_execute_def lookup_def live_def Let_def)

lemma increment_unreachable:
  assumes "redis_client cs = Some r" "\<not> reachable r"
  shows "increment cs now key amount ttl = (None, cs)"
  using assms
  by (cases ttl) (simp_all add: increment_def redis_exists_def pipe_execute_def Let_def)


lemma int64_one: "int64 1"
  by (simp add: int64_def)




section \<open>The policy tables\<close>

lemma default_limits_cases:
  assumes "default_limits limit_type = Some pol"
  shows "(requests pol, window pol) \<in> {(5, 300), (100, 60), (10, 300), (3, 60), (200, 60)}"
  using assms by (auto simp: default_limits_def split: if_splits)

lemma default_limits_window_pos:
  "default_limits limit_type = Some pol \<Longrightarrow> 0 < window pol"
  using default_limits_cases [of limit_type pol] by auto

lemma default_limits_api: "default_limits ''api'' = Some \<lparr>requests = 100, window = 60\<rparr>"
  by (simp add: default_limits_def)


section \<open>Role multipliers and the effective limit\<close>

text \<open>
  Claim C3, as the code has it.  A request with no verified token in its context gets
  the multiplier 0.5, so a budget of 10 becomes 5.  A request that carries a decoded
  token whose role claim is absent, or is not one of the five roles of the table, gets
  the multiplier 1.0 of the \<open>user\<close> baseline, so a budget of 10 stays 10.
\<close>

theorem role_multiplier_defaults:
  "(jwt req = None \<longrightarrow>
      get_user_role_multiplier req = 1 / 2
      \<and> adjusted_limit \<lparr>requests = 10, window = w\<rparr> (get_user_role_multiplier req) = 5)
 \<and> (\<forall>c. jwt req = Some c
        \<and> (claim_role c = None
           \<or> (\<exists>\<rho>. claim_role c = Some \<rho>
                  \<and> \<rho> \<notin> {''admin'', ''hospital_admin'', ''doctor'', ''user'', ''guest''})) \<longrightarrow>
      get_user_role_multiplier req = 1
      \<and> adjusted_limit \<lparr>requests = 10, window = w\<rparr> (get_user_role_multiplier req) = 10)"
proof (intro conjI allI impI)
  assume "jwt req = None"
  then show m: "get_user_role_multiplier req = 1 / 2"
    by (simp add: get_user_role_multiplier_def)
  show "adjusted_limit \<lparr>requests = 10, window = w\<rparr> (get_user_role_multiplier req) = 5"
    unfolding m by (simp add: adjusted_limit_def py_int_def)
next
  fix c
  assume h: "jwt req = Some c
        \<and> (claim_role c = None
           \<or> (\<exists>\<rho>. claim_role c = Some \<rho>
                  \<and> \<rho> \<notin> {''admin'', ''hospital_admin'', ''doctor'', ''user'', ''guest''}))"
  then show m: "get_user_role_multiplier req = 1"
    by (auto simp: get_user_role_multiplier_def user_role_multipliers_def Let_def)
  show "adjusted_limit \<lparr>requests = 10, window = w\<rparr> (get_user_role_multiplier req) = 10"
    unfolding m by (simp add: adjusted_limit_def py_int_def)
qed

theorem role_multiplier_defaults_witness:
  "jwt (guest_request ''9.9.9.9'') = None
   \<and> get_user_role_multiplier (guest_request ''9.9.9.9'') = 1 / 2
   \<and> adjusted_limit \<lparr>requests = 10, window = 60\<rparr> (get_user_role_multiplier (guest_request ''9.9.9.9'')) = 5
   \<and> claim_role (the (jwt (user_request ''9.9.9.9'' 7 ''donor''))) = Some ''donor''
   \<and> get_user_role_multiplier (user_request ''9.9.9.9'' 7 ''donor'') = 1
   \<and> adjusted_limit \<lparr>requests = 10, window = 60\<rparr> (get_user_role_multiplier (user_request ''9.9.9.9'' 7 ''donor'')) = 10
   \<and> claim_role (the (jwt (anonymous_request ''9.9.9.9''))) = None
   \<and> get_user_role_multiplier (anonymous_request ''9.9.9.9'') = 1"
proof -
  let ?d = "\<lparr>jwt_identity = Some 7, claim_type = Some ''user'', claim_role = Some ''donor''\<rparr>"
  let ?a = "\<lparr>jwt_identity = None, claim_type = None, claim_role = None\<rparr>"
  have g: "jwt (guest_request ''9.9.9.9'') = None"
    by (simp add: guest_request_def)
  have d: "jwt (user_request ''9.9.9.9'' 7 ''donor'') = Some ?d
           \<and> (claim_role ?d = None \<or> (\<exists>\<rho>. claim_role ?d = Some \<rho>
                  \<and> \<rho> \<notin> {''admin'', ''hospital_admin'', ''doctor'', ''user'', ''guest''}))"
    by (simp add: user_request_def)
  have a: "jwt (anonymous_request ''9.9.9.9'') = Some ?a
           \<and> (claim_role ?a = None \<or> (\<exists>\<rho>. claim_role ?a = Some \<rho>
                  \<and> \<rho> \<notin> {''admin'', ''hospital_admin'', ''doctor'', ''user'', ''guest''}))"
    by (simp add: anonymous_request_def)
  have 1: "get_user_role_multiplier (guest_request ''9.9.9.9'') = 1 / 2
      \<and> adjusted_limit \<lparr>requests = 10, window = 60\<rparr> (get_user_role_multiplier (guest_request ''9.9.9.9'')) = 5"
    by (rule role_multiplier_defaults [of "guest_request ''9.9.9.9''" 60, THEN conjunct1, rule_format, OF g])
  have 2: "get_user_role_multiplier (user_request ''9.9.9.9'' 7 ''donor'') = 1
      \<and> adjusted_limit \<lparr>requests = 10, window = 60\<rparr> (get_user_role_multiplier (user_request ''9.9.9.9'' 7 ''donor'')) = 10"
    by (rule role_multiplier_defaults [of "user_request ''9.9.9.9'' 7 ''donor''" 60, THEN conjunct2, rule_format, OF d])
  have 3: "get_user_role_multiplier (anonymous_request ''9.9.9.9'') = 1"
    by (rule role_multiplier_defaults [of "anonymous_request ''9.9.9.9''" 60, THEN conjunct2, rule_format, OF a, THEN conjunct1])
  have r: "claim_role (the (jwt (user_request ''9.9.9.9'' 7 ''donor''))) = Some ''donor''"
          "claim_role (the (jwt (anonymous_request ''9.9.9.9''))) = None"
    by (simp_all add: user_request_def anonymous_request_def)
  show ?thesis using g 1 2 3 r by (intro conjI) (erule conjunct1 conjunct2 | assumption)+
qed

text \<open>
  The claim as stated fails for a token with an unlisted role: \<open>donor\<close> is a role of the
  user model and not of the multiplier table, and resolves to 1.0, not 0.5.
\<close>

theorem unknown_role_with_token_counterexample:
  "user_role_multipliers ''donor'' = None
   \<and> get_user_role_multiplier (user_request ''9.9.9.9'' 7 ''donor'') = 1
   \<and> get_user_role_multiplier (user_request ''9.9.9.9'' 7 ''donor'') \<noteq> 1 / 2
   \<and> adjusted_limit \<lparr>requests = 10, window = 60\<rparr>
        (get_user_role_multiplier (user_request ''9.9.9.9'' 7 ''donor'')) = 10"
  by (simp add: user_role_multipliers_def get_user_role_multiplier_def user_request_def
        adjusted_limit_def py_int_def)




section \<open>Failing open\<close>

text \<open>
  Claim C10.  A category that is not one of the five built-in ones is absent from the
  table, so building the counter key raises \<open>KeyError\<close>; the check answers
  \<open>(True, {})\<close> and the store is left exactly as it was, so no counter is incremented.
\<close>

theorem unknown_category_fails_open:
  assumes "limit_type \<notin> {''auth'', ''api'', ''upload'', ''emergency'', ''admin''}"
  shows "default_limits limit_type = None
       \<and> get_rate_limit_key now (get_client_identifier req) limit_type = Inl KeyError
       \<and> check_rate_limit req limit_type None now cs = ((True, None), cs)"
proof -
  have d: "default_limits limit_type = None"
    using assms by (simp add: default_limits_def)
  then have k: "get_rate_limit_key now (get_client_identifier req) limit_type = Inl KeyError"
    by (simp add: get_rate_limit_key_def)
  show ?thesis
    using d k by (simp add: check_rate_limit_def check_rate_limit_try_def default_limits_api Let_def)
qed

theorem unknown_category_fails_open_witness:
  "''reports'' \<notin> {''auth'', ''api'', ''upload'', ''emergency'', ''admin''}
   \<and> check_rate_limit (guest_request ''9.9.9.9'') ''reports'' None 0 (fresh_service [])
       = ((True, None), fresh_service [])"
  using unknown_category_fails_open [of "''reports''" 0 "guest_request ''9.9.9.9''" "fresh_service []"]
  by simp

text \<open>
  Claim C7.  The check answers \<open>(True, {})\<close> when the cache service is unavailable,
  when the Redis server cannot be reached, and whenever the body of its \<open>try\<close> block
  raises anything; its result is always a value, never an exception.
\<close>

theorem check_rate_limit_fails_open:
  "(\<not> is_available cs \<longrightarrow> check_rate_limit req limit_type custom_limit now cs = ((True, None), cs))
 \<and> (\<forall>r. redis_client cs = Some r \<and> \<not> reachable r \<longrightarrow>
        check_rate_limit req limit_type custom_limit now cs = ((True, None), cs))
 \<and> (\<forall>e cs'. is_available cs \<and> check_rate_limit_try req limit_type custom_limit now cs = (Inl e, cs') \<longrightarrow>
        check_rate_limit req limit_type custom_limit now cs = ((True, None), cs'))"
proof (intro conjI allI impI)
  assume "\<not> is_available cs"
  then show "check_rate_limit req limit_type custom_limit now cs = ((True, None), cs)"
    by (simp add: check_rate_limit_def)
next
  fix r assume h: "redis_client cs = Some r \<and> \<not> reachable r"
  then have inc: "\<And>key ttl. increment cs now key 1 ttl = (None, cs)"
    by (simp add: increment_unreachable)
  show "check_rate_limit req limit_type custom_limit now cs = ((True, None), cs)"
    using h inc
    by (simp add: check_rate_limit_def check_rate_limit_try_def is_available_def
          default_limits_api Let_def split: sum.splits)
next
  fix e cs' assume "is_available cs \<and> check_rate_limit_try req limit_type custom_limit now cs = (Inl e, cs')"
  then show "check_rate_limit req limit_type custom_limit now cs = ((True, None), cs')"
    by (simp add: check_rate_limit_def)
qed

theorem check_rate_limit_fails_open_witness:
  "(let cs = \<lparr>redis_client = None, default_ttl = 3600, key_prefix = ''hospital_mgmt:''\<rparr>
    in \<not> is_available cs
       \<and> check_rate_limit (guest_request ''9.9.9.9'') ''api'' None 0 cs = ((True, None), cs))
 \<and> (let r = \<lparr>reachable = False, db = Map.empty\<rparr>;
        cs = \<lparr>redis_client = Some r, default_ttl = 3600, key_prefix = ''hospital_mgmt:''\<rparr>
    in \<not> reachable r
       \<and> check_rate_limit (guest_request ''9.9.9.9'') ''api'' None 0 cs = ((True, None), cs))
 \<and> (let cs = fresh_service [(''hospital_mgmt:rate_limit:api:ip:9.9.9.9:0'',
                 \<lparr>val = Serialized \<lparr>blocked_at = 0, reason = ''x'', duration = 60\<rparr>, expire_at = None\<rparr>)]
    in is_available cs
       \<and> fst (check_rate_limit_try (guest_request ''9.9.9.9'') ''api'' None 0 cs) = Inl TypeError
       \<and> fst (check_rate_limit (guest_request ''9.9.9.9'') ''api'' None 0 cs) = (True, None))"
proof -
  let ?req = "guest_request ''9.9.9.9''"
  let ?cs1 = "\<lparr>redis_client = None, default_ttl = 3600, key_prefix = ''hospital_mgmt:''\<rparr>"
  let ?r = "\<lparr>reachable = False, db = Map.empty\<rparr>"
  let ?cs2 = "\<lparr>redis_client = Some ?r, default_ttl = 3600, key_prefix = ''hospital_mgmt:''\<rparr>"
  let ?cs3 = "fresh_service [(''hospital_mgmt:rate_limit:api:ip:9.9.9.9:0'',
                 \<lparr>val = Serialized \<lparr>blocked_at = 0, reason = ''x'', duration = 60\<rparr>, expire_at = None\<rparr>)]"
  have h1: "\<not> is_available ?cs1" by (simp add: is_available_def)
  have h2: "redis_client ?cs2 = Some ?r \<and> \<not> reachable ?r" by simp
  have a3: "is_available ?cs3" by (simp add: is_available_def fresh_service_def)
  have e3: "fst (check_rate_limit_try ?req ''api'' None 0 ?cs3) = Inl TypeError" by code_simp
  then have h3: "is_available ?cs3 \<and> check_rate_limit_try ?req ''api'' None 0 ?cs3
                   = (Inl TypeError, snd (check_rate_limit_try ?req ''api'' None 0 ?cs3))"
    using a3 by (metis prod.collapse)
  note thm1 = check_rate_limit_fails_open [of ?cs1 ?req "''api''" None 0, THEN conjunct1, rule_format, OF h1]
  note thm2 = check_rate_limit_fails_open [of ?cs2 ?req "''api''" None 0, THEN conjunct2, THEN conjunct1, rule_format, OF h2]
  note thm3 = check_rate_limit_fails_open [of ?cs3 ?req "''api''" None 0, THEN conjunct2, THEN conjunct2, rule_format, OF h3]
  show ?thesis
    unfolding Let_def using h1 h2 a3 e3 thm1 thm2 thm3 by simp
qed

section \<open>Block precedence\<close>

text \<open>
  Claim C6.  When the store answers and holds a live entry under the blocked-address
  key of the request's resolved address, the wrapper answers \<open>Blocked\<close> and the store is
  unchanged: the quota check did not run and no counter was incremented, whatever the
  category, the custom limit or the remaining quota.
\<close>

theorem blocked_address_rejected_before_quota:
  assumes "redis_client cs = Some r" "reachable r"
    and "stored cs now (''blocked_ip:'' @ get_client_ip req) = Some e"
  shows "rate_limit limit_type custom_limit req now cs = (Blocked, cs)"
  using assms
  by (simp add: rate_limit_def is_ip_blocked_def is_available_def cache_exists_def
        redis_exists_def stored_def truthy_def)

theorem blocked_address_rejected_before_quota_witness:
  "(let cs = fresh_service [(''hospital_mgmt:blocked_ip:9.9.9.9'',
                \<lparr>val = Serialized \<lparr>blocked_at = 0, reason = ''Brute force protection'', duration = 900\<rparr>,
                 expire_at = Some 900\<rparr>)]
    in stored cs 10 (''blocked_ip:'' @ get_client_ip (guest_request ''9.9.9.9'')) \<noteq> None
       \<and> stored cs 10 ''rate_limit:api:ip:9.9.9.9:0'' = None
       \<and> rate_limit ''api'' None (guest_request ''9.9.9.9'') 10 cs = (Blocked, cs))"
proof -
  let ?e = "\<lparr>val = Serialized \<lparr>blocked_at = 0, reason = ''Brute force protection'', duration = 900\<rparr>,
                 expire_at = Some 900\<rparr>"
  let ?r = "\<lparr>reachable = True, db = map_of [(''hospital_mgmt:blocked_ip:9.9.9.9'', ?e)]\<rparr>"
  let ?cs = "fresh_service [(''hospital_mgmt:blocked_ip:9.9.9.9'', ?e)]"
  have c: "redis_client ?cs = Some ?r" by (simp add: fresh_service_def)
  have r: "reachable ?r" by simp
  have s: "stored ?cs 10 (''blocked_ip:'' @ get_client_ip (guest_request ''9.9.9.9'')) = Some ?e"
    by code_simp
  have q: "stored ?cs 10 ''rate_limit:api:ip:9.9.9.9:0'' = None"
    by code_simp
  show ?thesis
    unfolding Let_def
    using blocked_address_rejected_before_quota [OF c r s, of "''api''" None] s q by simp
qed

section \<open>The emergency scenario\<close>

text \<open>
  Claim C8.  The built-in emergency policy is 3 requests per 60 seconds; the request
  resolves to the identity \<open>ip:9.9.9.9\<close> with multiplier 1.0; the store starts empty.
  Requests 1 to 3 at time 0 are allowed with 2, 1 and 0 remaining; request 4 at time 10
  is denied with 0 remaining and a retry-after of 50; request 5 at time 61 is allowed
  with 2 remaining.
\<close>

theorem emergency_scenario:
  "get_client_identifier (anonymous_request ''9.9.9.9'') = ''ip:9.9.9.9''
   \<and> get_user_role_multiplier (anonymous_request ''9.9.9.9'') = 1
   \<and> default_limits ''emergency'' = Some \<lparr>requests = 3, window = 60\<rparr>
   \<and> map (\<lambda>(allowed, info). (allowed, map_option remaining info, map_option retry_after info))
        (fst (check_rate_limit_at (anonymous_request ''9.9.9.9'') ''emergency'' None
                [0, 0, 0, 10, 61] (fresh_service [])))
     = [(True, Some 2, Some 0), (True, Some 1, Some 0), (True, Some 0, Some 0),
        (False, Some 0, Some 50), (True, Some 2, Some 0)]"
  by code_simp

section \<open>Window counting\<close>

text \<open>A time in bucket \<open>b\<close> of a window of \<open>w\<close> seconds lies between the bucket's ends.\<close>

lemma py_int_bucket:
  assumes "0 \<le> t" "0 < w" "py_int (t / of_int w) = b"
  shows "of_int (b * w) \<le> t \<and> t < of_int (b * w + w)"
proof -
  have w: "(0::rat) < of_int w" using assms by simp
  have q: "0 \<le> t / of_int w" using assms by simp
  then have "\<lfloor>t / of_int w\<rfloor> = b" using assms by (simp add: py_int_def)
  then have "of_int b \<le> t / of_int w" "t / of_int w < of_int b + 1"
    by linarith+
  then have "of_int b * of_int w \<le> t" "t < (of_int b + 1) * of_int w"
    using w by (simp_all add: pos_le_divide_eq pos_divide_less_eq)
  then show ?thesis by (simp add: algebra_simps)
qed

text \<open>
  One check against a counter that exists, and one against a key that does not: the
  count goes up by one, the decision compares the new count with the adjusted limit.
\<close>

lemma check_rate_limit_counted:
  assumes lim: "default_limits limit_type = Some pol"
    and win: "window (case custom_limit of None \<Rightarrow> pol | Some c \<Rightarrow> c) = window pol"
    and cl: "redis_client cs = Some r" and re: "reachable r"
    and t: "0 \<le> t" and b: "py_int (t / of_int (window pol)) = b"
    and K: "K = make_key cs (''rate_limit:'' @ limit_type @ '':'' @ get_client_identifier req @ '':'' @ str_int b)"
    and e: "lookup t (db r) K = Some e" "val e = Counter c"
    and fits: "int64 (c + 1)"
    and N: "N = adjusted_limit (case custom_limit of None \<Rightarrow> pol | Some c \<Rightarrow> c) (get_user_role_multiplier req)"
  shows "check_rate_limit req limit_type custom_limit t cs =
          ((c + 1 \<le> N,
            Some \<lparr>limit = N, remaining = max 0 (N - (c + 1)),
                  reset_time = b * window pol + window pol,
                  retry_after = (if c + 1 \<le> N then 0 else b * window pol + window pol - py_int t),
                  info_window = window pol,
                  info_identifier = split_first CHR '':'' (get_client_identifier req)\<rparr>),
           cs\<lparr>redis_client := Some (r\<lparr>db := (db r)(K \<mapsto> e\<lparr>val := Counter (c + 1)\<rparr>)\<rparr>)\<rparr>)"
proof -
  have wpos: "window pol \<noteq> 0" using default_limits_window_pos [OF lim] by simp
  have key: "get_rate_limit_key t (get_client_identifier req) limit_type
               = Inr (''rate_limit:'' @ limit_type @ '':'' @ get_client_identifier req @ '':'' @ str_int b)"
    using lim wpos b by (simp add: get_rate_limit_key_def py_truediv_def)
  have inc: "increment cs t (''rate_limit:'' @ limit_type @ '':'' @ get_client_identifier req @ '':'' @ str_int b) 1 (Some (window pol))
              = (Some (c + 1), cs\<lparr>redis_client := Some (r\<lparr>db := (db r)(K \<mapsto> e\<lparr>val := Counter (c + 1)\<rparr>)\<rparr>)\<rparr>)"
    using increment_existing [OF cl re e(1) [unfolded K] e(2) int64_one fits] K by simp
  show ?thesis
    using cl key inc win wpos b N
    by (cases custom_limit)
       (simp_all add: check_rate_limit_def check_rate_limit_try_def is_available_def
          default_limits_api lim py_truediv_def Let_def)
qed

lemma check_rate_limit_first:
  assumes lim: "default_limits limit_type = Some pol"
    and win: "window (case custom_limit of None \<Rightarrow> pol | Some c \<Rightarrow> c) = window pol"
    and cl: "redis_client cs = Some r" and re: "reachable r"
    and t: "0 \<le> t" and b: "py_int (t / of_int (window pol)) = b"
    and K: "K = make_key cs (''rate_limit:'' @ limit_type @ '':'' @ get_client_identifier req @ '':'' @ str_int b)"
    and e: "lookup t (db r) K = None"
    and N: "N = adjusted_limit (case custom_limit of None \<Rightarrow> pol | Some c \<Rightarrow> c) (get_user_role_multiplier req)"
  shows "check_rate_limit req limit_type custom_limit t cs =
          ((1 \<le> N,
            Some \<lparr>limit = N, remaining = max 0 (N - 1),
                  reset_time = b * window pol + window pol,
                  retry_after = (if 1 \<le> N then 0 else b * window pol + window pol - py_int t),
                  info_window = window pol,
                  info_identifier = split_first CHR '':'' (get_client_identifier req)\<rparr>),
           cs\<lparr>redis_client := Some (r\<lparr>db := (db r)(K \<mapsto>
                 \<lparr>val = Counter 1, expire_at = Some (t + of_int (window pol))\<rparr>)\<rparr>)\<rparr>)"
proof -
  have wpos: "0 < window pol" using default_limits_window_pos [OF lim] .
  have key: "get_rate_limit_key t (get_client_identifier req) limit_type
               = Inr (''rate_limit:'' @ limit_type @ '':'' @ get_client_identifier req @ '':'' @ str_int b)"
    using lim wpos b by (simp add: get_rate_limit_key_def py_truediv_def)
  have inc: "increment cs t (''rate_limit:'' @ limit_type @ '':'' @ get_client_identifier req @ '':'' @ str_int b) 1 (Some (window pol))
              = (Some 1, cs\<lparr>redis_client := Some (r\<lparr>db := (db r)(K \<mapsto>
                 \<lparr>val = Counter 1, expire_at = Some (t + of_int (window pol))\<rparr>)\<rparr>)\<rparr>)"
    using increment_new [OF cl re e [unfolded K] wpos int64_one] K by simp
  show ?thesis
    using cl key inc win wpos b N
    by (cases custom_limit)
       (simp_all add: check_rate_limit_def check_rate_limit_try_def is_available_def
          default_limits_api lim py_truediv_def Let_def)
qed

lemma check_rate_limit_at_counted:
  assumes lim: "default_limits limit_type = Some pol"
    and win: "window (case custom_limit of None \<Rightarrow> pol | Some c \<Rightarrow> c) = window pol"
    and N: "N = adjusted_limit (case custom_limit of None \<Rightarrow> pol | Some c \<Rightarrow> c) (get_user_role_multiplier req)"
    and K: "K = pfx @ ''rate_limit:'' @ limit_type @ '':'' @ get_client_identifier req @ '':'' @ str_int b"
  shows "key_prefix cs = pfx \<Longrightarrow> redis_client cs = Some r \<Longrightarrow> reachable r \<Longrightarrow>
         db r K = Some \<lparr>val = Counter c, expire_at = Some x\<rparr> \<Longrightarrow>
         \<forall>t \<in> set ts. 0 \<le> t \<and> py_int (t / of_int (window pol)) = b \<and> t < x \<Longrightarrow>
         k < length ts \<Longrightarrow>
         0 \<le> c \<Longrightarrow> c + int (length ts) \<le> 9223372036854775807 \<Longrightarrow>
           fst (fst (check_rate_limit_at req limit_type custom_limit ts cs) ! k) = (c + int k + 1 \<le> N)
         \<and> map_option limit (snd (fst (check_rate_limit_at req limit_type custom_limit ts cs) ! k)) = Some N
         \<and> map_option remaining (snd (fst (check_rate_limit_at req limit_type custom_limit ts cs) ! k))
              = Some (max 0 (N - (c + int k + 1)))"
proof (induction ts arbitrary: cs r c k)
  case Nil
  then show ?case by simp
next
  case (Cons t ts)
  let ?e = "\<lparr>val = Counter c, expire_at = Some x\<rparr>"
  let ?r' = "r\<lparr>db := (db r)(K \<mapsto> ?e\<lparr>val := Counter (c + 1)\<rparr>)\<rparr>"
  let ?cs' = "cs\<lparr>redis_client := Some ?r'\<rparr>"
  from Cons.prems have t: "0 \<le> t" "py_int (t / of_int (window pol)) = b" "t < x" by simp_all
  have K': "K = make_key cs (''rate_limit:'' @ limit_type @ '':'' @ get_client_identifier req @ '':'' @ str_int b)"
    using K Cons.prems(1) by (simp add: make_key_def)
  have lk: "lookup t (db r) K = Some ?e"
    using Cons.prems(4) t(3) by (simp add: lookup_def live_def)
  have fits: "int64 (c + 1)"
    using Cons.prems(7,8) by (simp add: int64_def)
  have step: "check_rate_limit req limit_type custom_limit t cs =
          ((c + 1 \<le> N,
            Some \<lparr>limit = N, remaining = max 0 (N - (c + 1)),
                  reset_time = b * window pol + window pol,
                  retry_after = (if c + 1 \<le> N then 0 else b * window pol + window pol - py_int t),
                  info_window = window pol,
                  info_identifier = split_first CHR '':'' (get_client_identifier req)\<rparr>), ?cs')"
    by (rule check_rate_limit_counted [OF lim win Cons.prems(2,3) t(1,2) K' lk _ fits N]) simp
  show ?case
  proof (cases k)
    case 0
    then show ?thesis using step by (simp add: split_beta)
  next
    case (Suc j)
    have j: "j < length ts" using Suc Cons.prems(6) by simp
    have "fst (fst (check_rate_limit_at req limit_type custom_limit ts ?cs') ! j) = (c + 1 + int j + 1 \<le> N)
         \<and> map_option limit (snd (fst (check_rate_limit_at req limit_type custom_limit ts ?cs') ! j)) = Some N
         \<and> map_option remaining (snd (fst (check_rate_limit_at req limit_type custom_limit ts ?cs') ! j))
              = Some (max 0 (N - (c + 1 + int j + 1)))"
      by (rule Cons.IH [of ?cs' ?r' "c + 1" j]) (use Cons.prems j in simp_all)
    then show ?thesis using step Suc by (simp add: split_beta add.commute add.left_commute)
  qed
qed

lemma length_check_rate_limit_at:
  "length (fst (check_rate_limit_at req limit_type custom_limit ts cs)) = length ts"
  by (induction ts arbitrary: cs) (simp_all add: split_beta)

text \<open>
  Window correctness where the policy's window is the category's own window (no custom
  limit, or a custom limit that keeps the window): with the store answering and the
  bucket's counter key absent at the first request, and no more requests than a signed
  64-bit counter can count, the \<open>k\<close>-th request of the bucket is
  allowed exactly when \<open>k\<close> is at most the adjusted limit \<open>N\<close>, and request \<open>N + 1\<close> is
  denied with nothing remaining.
\<close>

lemma window_correctness_category_window:
  assumes lim: "default_limits limit_type = Some pol"
    and win: "window (case custom_limit of None \<Rightarrow> pol | Some c \<Rightarrow> c) = window pol"
    and cl: "redis_client cs = Some r" and re: "reachable r"
    and times: "\<forall>t \<in> set (t1 # ts). 0 \<le> t \<and> py_int (t / of_int (window pol)) = b"
    and fresh: "stored cs t1 (''rate_limit:'' @ limit_type @ '':'' @ get_client_identifier req
                               @ '':'' @ str_int b) = None"
    and fits: "int (length (t1 # ts)) \<le> 9223372036854775807"
    and N: "N = adjusted_limit (case custom_limit of None \<Rightarrow> pol | Some c \<Rightarrow> c)
                  (get_user_role_multiplier req)"
    and rs: "rs = fst (check_rate_limit_at req limit_type custom_limit (t1 # ts) cs)"
  shows "length rs = length (t1 # ts)
       \<and> (\<forall>k < length rs. fst (rs ! k) = (int k + 1 \<le> N))
       \<and> (\<forall>k < length rs. int k + 1 \<le> N \<longrightarrow> fst (rs ! k))
       \<and> (\<forall>k < length rs. int k = N \<longrightarrow>
             \<not> fst (rs ! k) \<and> map_option remaining (snd (rs ! k)) = Some 0)"
proof -
  let ?key = "''rate_limit:'' @ limit_type @ '':'' @ get_client_identifier req @ '':'' @ str_int b"
  let ?K = "make_key cs ?key"
  let ?W = "window pol"
  let ?e1 = "\<lparr>val = Counter 1, expire_at = Some (t1 + of_int ?W)\<rparr>"
  let ?r1 = "r\<lparr>db := (db r)(?K \<mapsto> ?e1)\<rparr>"
  let ?cs1 = "cs\<lparr>redis_client := Some ?r1\<rparr>"
  have wpos: "0 < ?W" using default_limits_window_pos [OF lim] .
  from times have t1: "0 \<le> t1" "py_int (t1 / of_int ?W) = b" by simp_all
  have lk: "lookup t1 (db r) ?K = None" using fresh cl by (simp add: stored_def)
  have first: "check_rate_limit req limit_type custom_limit t1 cs =
          ((1 \<le> N,
            Some \<lparr>limit = N, remaining = max 0 (N - 1),
                  reset_time = b * ?W + ?W,
                  retry_after = (if 1 \<le> N then 0 else b * ?W + ?W - py_int t1),
                  info_window = ?W,
                  info_identifier = split_first CHR '':'' (get_client_identifier req)\<rparr>), ?cs1)"
    by (rule check_rate_limit_first [OF lim win cl re t1 refl lk N])
  have lo: "of_int (b * ?W) \<le> t1" using py_int_bucket [OF t1(1) wpos t1(2)] by simp
  have later: "\<forall>t \<in> set ts. 0 \<le> t \<and> py_int (t / of_int ?W) = b \<and> t < t1 + of_int ?W"
  proof
    fix t assume "t \<in> set ts"
    with times have t: "0 \<le> t" "py_int (t / of_int ?W) = b" by simp_all
    have "t < of_int (b * ?W + ?W)" using py_int_bucket [OF t(1) wpos t(2)] by simp
    with lo have "t < t1 + of_int ?W" by simp
    with t show "0 \<le> t \<and> py_int (t / of_int ?W) = b \<and> t < t1 + of_int ?W" by simp
  qed
  have K: "?K = key_prefix cs @ ?key" by (simp add: make_key_def)
  have rest: "fst (fst (check_rate_limit_at req limit_type custom_limit ts ?cs1) ! j) = (1 + int j + 1 \<le> N)
         \<and> map_option limit (snd (fst (check_rate_limit_at req limit_type custom_limit ts ?cs1) ! j)) = Some N
         \<and> map_option remaining (snd (fst (check_rate_limit_at req limit_type custom_limit ts ?cs1) ! j))
              = Some (max 0 (N - (1 + int j + 1)))"
    if "j < length ts" for j
    by (rule check_rate_limit_at_counted [OF lim win N K, of ?cs1 ?r1 1 "t1 + of_int ?W" ts j])
       (use re later that fits in simp_all)
  have rs': "rs = (1 \<le> N, Some \<lparr>limit = N, remaining = max 0 (N - 1),
                  reset_time = b * ?W + ?W,
                  retry_after = (if 1 \<le> N then 0 else b * ?W + ?W - py_int t1),
                  info_window = ?W,
                  info_identifier = split_first CHR '':'' (get_client_identifier req)\<rparr>)
               # fst (check_rate_limit_at req limit_type custom_limit ts ?cs1)"
    unfolding rs using first by (simp add: split_beta)
  have len: "length rs = length (t1 # ts)"
    unfolding rs by (rule length_check_rate_limit_at)
  have each: "fst (rs ! k) = (int k + 1 \<le> N)
              \<and> map_option remaining (snd (rs ! k)) = Some (max 0 (N - (int k + 1)))"
    if "k < length rs" for k
  proof (cases k)
    case 0
    then show ?thesis unfolding rs' by simp
  next
    case (Suc j)
    with that len have "j < length ts" by simp
    from rest [OF this] Suc show ?thesis
      unfolding rs' by (simp add: add.commute add.left_commute)
  qed
  show ?thesis
  proof (intro conjI allI impI)
    show "length rs = length (t1 # ts)" by (rule len)
  next
    fix k assume "k < length rs"
    then show "fst (rs ! k) = (int k + 1 \<le> N)" using each by blast
  next
    fix k assume "k < length rs" "int k + 1 \<le> N"
    then show "fst (rs ! k)" using each by blast
  next
    fix k assume k: "k < length rs" "int k = N"
    from each [OF k(1)] k(2) show "\<not> fst (rs ! k)" by simp
    from each [OF k(1)] k(2) show "map_option remaining (snd (rs ! k)) = Some 0" by simp
  qed
qed

text \<open>
  Claim C1.  The counter key is bucketed by the window of the built-in category, never
  by the window of the policy in force.  Under the custom policy of 1 request per 120
  seconds on the category \<open>api\<close> (built-in window 60), for one identity with multiplier
  1.0, the requests at times 0 and 61 lie in the same 120-second window, the limit is
  1, and both are allowed; both answers report the window's end as 120.
\<close>

theorem custom_window_bucketed_by_category_window:
  "get_user_role_multiplier (anonymous_request ''9.9.9.9'') = 1
   \<and> adjusted_limit \<lparr>requests = 1, window = 120\<rparr> (get_user_role_multiplier (anonymous_request ''9.9.9.9'')) = 1
   \<and> py_int (0 / of_int (window \<lparr>requests = 1, window = 120\<rparr>))
       = py_int (61 / of_int (window \<lparr>requests = 1, window = 120\<rparr>))
   \<and> fst (check_rate_limit_at (anonymous_request ''9.9.9.9'') ''api''
             (Some \<lparr>requests = 1, window = 120\<rparr>) [0, 61] (fresh_service []))
       = [(True, Some \<lparr>limit = 1, remaining = 0, reset_time = 120, retry_after = 0,
                       info_window = 120, info_identifier = ''ip''\<rparr>),
          (True, Some \<lparr>limit = 1, remaining = 0, reset_time = 120, retry_after = 0,
                       info_window = 120, info_identifier = ''ip''\<rparr>)]"
  by code_simp

section \<open>Brute-force detection\<close>








text \<open>
  What \<open>check_brute_force_protection\<close> hands to \<open>block_ip\<close> for the username axis and
  for the pair axis: the text after the last colon of the identifier, which is the
  username.
\<close>

lemma split_last_no_sep:
  "sep \<notin> set s \<Longrightarrow> split_last sep (pre @ sep # s) = s"
proof -
  assume n: "sep \<notin> set s"
  then have "takeWhile (\<lambda>c. c \<noteq> sep) (rev s) = rev s"
    by auto
  then show ?thesis
    by (simp add: split_last_def takeWhile_tail del: takeWhile_eq_all_conv)
qed

lemma brute_force_block_target:
  assumes "CHR '':'' \<notin> set username"
  shows "split_last CHR '':'' (''user:'' @ username) = username"
    and "split_last CHR '':'' (''combo:'' @ ip @ '':'' @ username) = username"
proof -
  show "split_last CHR '':'' (''user:'' @ username) = username"
    using split_last_no_sep [OF assms, of "''user''"] by simp
  show "split_last CHR '':'' (''combo:'' @ ip @ '':'' @ username) = username"
    using split_last_no_sep [OF assms, of "''combo:'' @ ip"] by simp
qed

text \<open>
  Claim C2.  Four failed logins for \<open>alice\<close> from \<open>1.1.1.1\<close>, starting from an empty
  store: the fourth trips the pair axis, and the block entry that results is stored
  under the username, \<open>blocked_ip:alice\<close>; no entry exists for \<open>blocked_ip:1.1.1.1\<close> and
  the address is not blocked.
\<close>

theorem combo_axis_blocks_username:
  "fst (track_failed_login_at ''alice'' (Some ''1.1.1.1'') (guest_request ''1.1.1.1'') [0, 1, 2, 3]
          (fresh_service [])) = [False, False, False, True]
   \<and> stored (snd (track_failed_login_at ''alice'' (Some ''1.1.1.1'') (guest_request ''1.1.1.1'')
          [0, 1, 2, 3] (fresh_service []))) 3 ''blocked_ip:alice''
       = Some \<lparr>val = Serialized \<lparr>blocked_at = 3, reason = ''Brute force protection'', duration = 600\<rparr>,
               expire_at = Some 603\<rparr>
   \<and> stored (snd (track_failed_login_at ''alice'' (Some ''1.1.1.1'') (guest_request ''1.1.1.1'')
          [0, 1, 2, 3] (fresh_service []))) 3 ''blocked_ip:1.1.1.1'' = None
   \<and> is_ip_blocked (Some ''1.1.1.1'') (guest_request ''1.1.1.1'') 3
        (snd (track_failed_login_at ''alice'' (Some ''1.1.1.1'') (guest_request ''1.1.1.1'')
          [0, 1, 2, 3] (fresh_service []))) = False"
  by code_simp

end
